theory Spec2Isabelle
  imports Complex_Main
begin

section \<open>Python values\<close>

text \<open>
  The client in \<^verbatim>\<open>apps/cognee_service/cognee_client.py\<close> receives loosely typed
  records from the memory library and inspects them at run time
  (\<^verbatim>\<open>isinstance\<close>, \<^verbatim>\<open>hasattr\<close>, \<^verbatim>\<open>dict.get\<close>). The values it can meet are
  modelled by one datatype. A float is either a finite value, carried as the rational
  it denotes, or one of the three IEEE specials; the specials matter because the
  clamp is written with comparisons. Arithmetic on finite floats is taken exact
  (no rounding to binary64): the only arithmetic in the module is the fallback
  score \<^verbatim>\<open>1.0 - (i * 0.1)\<close>.
\<close>

datatype pyfloat = Finite rat | PosInf | NegInf | NaN

datatype pyval =
    PNone
  | PBool bool
  | PInt int
  | PFloat pyfloat
  | PStr string
  | PList "pyval list"
  | PDict "(string \<times> pyval) list"
  | PObj "(string \<times> pyval) list"

text \<open>
  \<open>PStr\<close> carries a string as the list of its characters.
  \<open>PDict\<close> is a string-keyed \<^verbatim>\<open>dict\<close> in insertion order (the first binding of a key
  is the one that counts); \<open>PObj\<close> is any other object, given by its attributes.
  Every error the module can meet is an instance of \<^verbatim>\<open>Exception\<close>, which is what
  its two handlers catch.
\<close>

datatype py_exc = TypeError | KeyError | OSError string | BackendError string

text \<open>IEEE comparison: every comparison with NaN is false.\<close>

fun float_lt :: "pyfloat \<Rightarrow> pyfloat \<Rightarrow> bool" where
  "float_lt NaN _ = False"
| "float_lt _ NaN = False"
| "float_lt (Finite a) (Finite b) = (a < b)"
| "float_lt NegInf NegInf = False"
| "float_lt NegInf _ = True"
| "float_lt _ NegInf = False"
| "float_lt PosInf _ = False"
| "float_lt _ PosInf = True"

text \<open>The numeric value of a Python number; \<^verbatim>\<open>bool\<close> is a subclass of \<^verbatim>\<open>int\<close>.\<close>

fun py_num :: "pyval \<Rightarrow> pyfloat option" where
  "py_num (PBool b) = Some (Finite (if b then 1 else 0))"
| "py_num (PInt n) = Some (Finite (of_int n))"
| "py_num (PFloat f) = Some f"
| "py_num _ = None"

text \<open>
  \<^verbatim>\<open>f > v\<close> and \<^verbatim>\<open>f < v\<close> for a float \<open>f\<close>: defined between numbers, a
  \<^verbatim>\<open>TypeError\<close> for \<^verbatim>\<open>None\<close>, strings, lists, dicts and plain objects.
\<close>

definition float_gt_val :: "pyfloat \<Rightarrow> pyval \<Rightarrow> py_exc + bool" where
  "float_gt_val f v = (case py_num v of None \<Rightarrow> Inl TypeError | Some x \<Rightarrow> Inr (float_lt x f))"

definition float_lt_val :: "pyfloat \<Rightarrow> pyval \<Rightarrow> py_exc + bool" where
  "float_lt_val f v = (case py_num v of None \<Rightarrow> Inl TypeError | Some x \<Rightarrow> Inr (float_lt f x))"

text \<open>
  The builtins \<^verbatim>\<open>max(v, f)\<close> and \<^verbatim>\<open>min(v, f)\<close> with two arguments keep the first
  argument unless the second is strictly greater (smaller).
\<close>

definition py_max :: "pyval \<Rightarrow> pyfloat \<Rightarrow> py_exc + pyval" where
  "py_max v f = (case float_gt_val f v of Inl e \<Rightarrow> Inl e
                 | Inr b \<Rightarrow> Inr (if b then PFloat f else v))"

definition py_min :: "pyval \<Rightarrow> pyfloat \<Rightarrow> py_exc + pyval" where
  "py_min v f = (case float_lt_val f v of Inl e \<Rightarrow> Inl e
                 | Inr b \<Rightarrow> Inr (if b then PFloat f else v))"

text \<open>\<^verbatim>\<open>d.get(k, default)\<close>, \<^verbatim>\<open>k in d\<close>, \<^verbatim>\<open>hasattr\<close> and \<^verbatim>\<open>getattr\<close> with a default.
  The attribute names the module asks for (\<^verbatim>\<open>payload\<close>, \<^verbatim>\<open>score\<close>, \<^verbatim>\<open>name\<close>) are
  attributes of no builtin value, so only a \<open>PObj\<close> can have them.\<close>

definition py_get :: "(string \<times> pyval) list \<Rightarrow> string \<Rightarrow> pyval \<Rightarrow> pyval" where
  "py_get d k dflt = (case map_of d k of None \<Rightarrow> dflt | Some v \<Rightarrow> v)"

definition py_in :: "string \<Rightarrow> (string \<times> pyval) list \<Rightarrow> bool" where
  "py_in k d = (map_of d k \<noteq> None)"

fun py_hasattr :: "pyval \<Rightarrow> string \<Rightarrow> bool" where
  "py_hasattr (PObj a) k = (map_of a k \<noteq> None)"
| "py_hasattr _ k = False"

fun py_getattr :: "pyval \<Rightarrow> string \<Rightarrow> pyval \<Rightarrow> pyval" where
  "py_getattr (PObj a) k dflt = (case map_of a k of None \<Rightarrow> dflt | Some v \<Rightarrow> v)"
| "py_getattr _ k dflt = dflt"

text \<open>\<^verbatim>\<open>xs[:k]\<close> for a Python integer \<open>k\<close>: a negative bound counts from the end.\<close>

definition py_slice_to :: "'a list \<Rightarrow> int \<Rightarrow> 'a list" where
  "py_slice_to xs k =
     (if 0 \<le> k then take (nat k) xs else take (length xs - nat (- k)) xs)"

text \<open>\<^verbatim>\<open>v[:500]\<close>: strings and lists can be sliced, anything else modelled here
  raises (a \<^verbatim>\<open>TypeError\<close>; the handler does not look at the class).\<close>

fun py_slice_500 :: "pyval \<Rightarrow> py_exc + pyval" where
  "py_slice_500 (PStr s) = Inr (PStr (py_slice_to s 500))"
| "py_slice_500 (PList xs) = Inr (PList (py_slice_to xs 500))"
| "py_slice_500 _ = Inl TypeError"

text \<open>The decimal form of a position, as the f-string \<^verbatim>\<open>f"result_{i}"\<close> prints it.\<close>

fun str_nat :: "nat \<Rightarrow> string" where
  "str_nat n = (if n < 10 then [''0123456789'' ! n]
                else str_nat (n div 10) @ [''0123456789'' ! (n mod 10)])"

declare str_nat.simps [simp del]

section \<open>The result normalizer: \<^verbatim>\<open>CogneeClient.search\<close>, lines 172--196\<close>

record item =
  cognee_id :: string
  snippet :: pyval
  score :: pyval
  metadata :: pyval

text \<open>\<^verbatim>\<open>1.0 - (i * 0.1)\<close>\<close>

definition fallback_score :: "nat \<Rightarrow> pyval" where
  "fallback_score i = PFloat (Finite (1 - of_nat i * (1 / 10)))"

text \<open>
  The three branches of the loop body, in the order of the source. The builtin
  \<^verbatim>\<open>str\<close> is a parameter \<open>str\<close>: nothing below depends on how values print.
  The result is the triple \<open>(snippet, score, metadata)\<close> before truncation and
  clamping.
\<close>

fun extract_fields :: "(pyval \<Rightarrow> string) \<Rightarrow> nat \<Rightarrow> pyval \<Rightarrow> pyval \<times> pyval \<times> pyval" where
  "extract_fields str i (PDict d) =
     (py_get d ''text'' (py_get d ''content'' (PStr (str (PDict d)))),
      py_get d ''score'' (fallback_score i),
      py_get d ''metadata'' (PDict []))"
| "extract_fields str i r =
     (if py_hasattr r ''payload'' then
        (if py_hasattr r ''payload'' then PStr (str (py_getattr r ''payload'' PNone))
         else PStr (str r),
         py_getattr r ''score'' (fallback_score i),
         PDict [])
      else (PStr (str r), fallback_score i, PDict []))"

text \<open>\<^verbatim>\<open>min(max(score, 0.0), 1.0)\<close>\<close>

definition clamp_score :: "pyval \<Rightarrow> py_exc + pyval" where
  "clamp_score sc = (case py_max sc (Finite 0) of Inl e \<Rightarrow> Inl e
                     | Inr m \<Rightarrow> py_min m (Finite 1))"

text \<open>The dict literal of lines 191--196: the slice is evaluated before the clamp,
  and either may raise.\<close>

definition make_item :: "nat \<Rightarrow> pyval \<times> pyval \<times> pyval \<Rightarrow> py_exc + item" where
  "make_item i t =
     (case t of (sn, sc, md) \<Rightarrow>
        (case py_slice_500 sn of Inl e \<Rightarrow> Inl e
         | Inr sn' \<Rightarrow>
            (case clamp_score sc of Inl e \<Rightarrow> Inl e
             | Inr sc' \<Rightarrow>
                Inr \<lparr>cognee_id = ''result_'' @ str_nat i, snippet = sn',
                     score = sc', metadata = md\<rparr>)))"

definition process_result :: "(pyval \<Rightarrow> string) \<Rightarrow> nat \<Rightarrow> pyval \<Rightarrow> py_exc + item" where
  "process_result str i r = make_item i (extract_fields str i r)"

text \<open>
  The \<^verbatim>\<open>for i, result in enumerate(...)\<close> loop. \<open>acc\<close> is the list \<^verbatim>\<open>items\<close>,
  which the loop appends to in place: when a record raises, the items appended so
  far are still there, and the exception is returned with them.
\<close>

fun process_results ::
  "(pyval \<Rightarrow> string) \<Rightarrow> nat \<Rightarrow> pyval list \<Rightarrow> item list \<Rightarrow> item list \<times> py_exc option" where
  "process_results str i [] acc = (acc, None)"
| "process_results str i (r # rs) acc =
     (case process_result str i r of
        Inl e \<Rightarrow> (acc, Some e)
      | Inr it \<Rightarrow> process_results str (Suc i) rs (acc @ [it]))"

section \<open>Graph assembly: lines 198--225\<close>

record edge =
  edge_from :: pyval
  edge_to :: pyval
  relation :: pyval
  weight :: pyval

text \<open>The fields \<open>edge_from\<close> and \<open>edge_to\<close> are the keys \<^verbatim>\<open>"from"\<close> and
  \<^verbatim>\<open>"to"\<close> of the edge dict. \<open>graph\<close> is the dict \<^verbatim>\<open>graph_context\<close>.\<close>

record graph =
  nodes :: "pyval list"
  edges :: "edge list"

text \<open>\<^verbatim>\<open>d[k]\<close> raises \<^verbatim>\<open>KeyError\<close> on a missing key.\<close>

definition py_index :: "(string \<times> pyval) list \<Rightarrow> string \<Rightarrow> py_exc + pyval" where
  "py_index d k = (case map_of d k of None \<Rightarrow> Inl KeyError | Some v \<Rightarrow> Inr v)"

text \<open>
  \<^verbatim>\<open>seen_nodes\<close> is a \<^verbatim>\<open>set\<close>. It is represented by the sequence of the values
  added to it, in the order of the additions: which of them the set merges and in
  which order \<^verbatim>\<open>list(seen_nodes)\<close> gives them is decided by the builtins, not by
  this module (see \<open>list_of_set\<close> below). Lists and dicts are unhashable and make
  \<^verbatim>\<open>set.add\<close> raise \<^verbatim>\<open>TypeError\<close>.
\<close>

fun py_hashable :: "pyval \<Rightarrow> bool" where
  "py_hashable (PList xs) = False"
| "py_hashable (PDict d) = False"
| "py_hashable _ = True"

definition set_add :: "pyval \<Rightarrow> pyval list \<Rightarrow> py_exc + pyval list" where
  "set_add v seen = (if \<not> py_hashable v then Inl TypeError else Inr (seen @ [v]))"

text \<open>
  One pass of the loop body over the pair \<open>(seen_nodes, graph_context["edges"])\<close>.
  \<^verbatim>\<open>hasattr(result, "name")\<close> is tested first, the dict branch second; inside
  the dict branch the node is added before the edge is appended.
\<close>

fun graph_step ::
  "(pyval \<Rightarrow> string) \<Rightarrow> pyval \<Rightarrow> pyval list \<times> edge list \<Rightarrow> py_exc + (pyval list \<times> edge list)" where
  "graph_step str r (seen, es) =
     (if py_hasattr r ''name'' then
        (case set_add (PStr (str (py_getattr r ''name'' PNone))) seen of
           Inl e \<Rightarrow> Inl e
         | Inr seen' \<Rightarrow> Inr (seen', es))
      else
        (case r of
           PDict d \<Rightarrow>
             (case (if py_in ''name'' d then
                      (case py_index d ''name'' of Inl e \<Rightarrow> Inl e | Inr v \<Rightarrow> set_add v seen)
                    else Inr seen) of
                Inl e \<Rightarrow> Inl e
              | Inr seen' \<Rightarrow>
                  (if py_in ''source'' d \<and> py_in ''target'' d then
                     (case py_index d ''source'' of
                        Inl e \<Rightarrow> Inl e
                      | Inr s \<Rightarrow>
                          (case py_index d ''target'' of
                             Inl e \<Rightarrow> Inl e
                           | Inr t \<Rightarrow>
                               Inr (seen',
                                    es @ [\<lparr>edge_from = s, edge_to = t,
                                           relation = py_get d ''relation'' (PStr ''related_to''),
                                           weight = py_get d ''weight'' (PFloat (Finite (1 / 2)))\<rparr>])))
                   else Inr (seen', es)))
         | _ \<Rightarrow> Inr (seen, es)))"

fun graph_loop ::
  "(pyval \<Rightarrow> string) \<Rightarrow> pyval list \<Rightarrow> pyval list \<times> edge list \<Rightarrow>
     (pyval list \<times> edge list) \<times> py_exc option" where
  "graph_loop str [] st = (st, None)"
| "graph_loop str (r # rs) st =
     (case graph_step str r st of
        Inl e \<Rightarrow> (st, Some e)
      | Inr st' \<Rightarrow> graph_loop str rs st')"

section \<open>The client\<close>

text \<open>
  Everything outside the module is gathered in one record: the process environment,
  the calls into the library and the file system (each either returns or raises),
  the two search modes of the library, and the builtins \<^verbatim>\<open>str\<close> and
  \<^verbatim>\<open>list(set)\<close>: \<open>list_of_set w xs\<close> is the list Python makes of a set to which the
  values \<open>xs\<close> were added in this order. Logging has no effect on any returned value
  and is left out.
\<close>

datatype search_type = INSIGHTS | GRAPH_COMPLETION

record world =
  getenv :: "string \<Rightarrow> string option"
  set_llm_api_key :: "string \<Rightarrow> py_exc option"
  resolve_path :: "string \<Rightarrow> string"
  mkdir :: "string \<Rightarrow> py_exc option"
  data_root_directory :: "string \<Rightarrow> py_exc option"
  cognee_search :: "search_type \<Rightarrow> string \<Rightarrow> py_exc + pyval list"
  py_str :: "pyval \<Rightarrow> string"
  list_of_set :: "pyval list \<Rightarrow> pyval list"

record cognee_client =
  data_dir :: string
  initialized :: bool
  evidence_map :: "(string \<times> string) list"

text \<open>\<^verbatim>\<open>_configure_llm\<close>: an unset (or empty) key is logged as a warning and
  nothing else happens.\<close>

definition configure_llm :: "world \<Rightarrow> py_exc option" where
  "configure_llm w =
     (case getenv w ''OPENAI_API_KEY'' of
        None \<Rightarrow> None
      | Some api_key \<Rightarrow> if api_key \<noteq> [] then set_llm_api_key w api_key else None)"

definition initialize :: "world \<Rightarrow> cognee_client \<Rightarrow> py_exc + cognee_client" where
  "initialize w c =
     (if initialized c then Inr c
      else
        (case configure_llm w of
           Some e \<Rightarrow> Inl e
         | None \<Rightarrow>
            (let data_path = resolve_path w (data_dir c) in
               (case mkdir w data_path of
                  Some e \<Rightarrow> Inl e
                | None \<Rightarrow>
                   (case data_root_directory w data_path of
                      Some e \<Rightarrow> Inl e
                    | None \<Rightarrow> Inr (c\<lparr>initialized := True\<rparr>))))))"

definition health_check :: "world \<Rightarrow> cognee_client \<Rightarrow> bool \<times> cognee_client" where
  "health_check w c =
     (case initialize w c of
        Inr c' \<Rightarrow> (True, c')
      | Inl e \<Rightarrow> (False, c))"

record search_response =
  items :: "item list"
  graph_context :: "graph option"

text \<open>
  The inner \<^verbatim>\<open>try\<close> of lines 199--225, as the value of \<^verbatim>\<open>graph_context\<close> once it
  is left. Edges are appended to the dict in place, so they survive an exception
  in the loop; the nodes are assigned only after the loop.
\<close>

definition graph_search :: "world \<Rightarrow> string \<Rightarrow> int \<Rightarrow> graph" where
  "graph_search w query top_k =
     (case cognee_search w GRAPH_COMPLETION query of
        Inl e \<Rightarrow> \<lparr>nodes = [], edges = []\<rparr>
      | Inr graph_results \<Rightarrow>
          (if graph_results \<noteq> [] then
             (case graph_loop (py_str w) (py_slice_to graph_results top_k) ([], []) of
                ((seen, es), None) \<Rightarrow> \<lparr>nodes = list_of_set w seen, edges = es\<rparr>
              | ((seen, es), Some e) \<Rightarrow> \<lparr>nodes = [], edges = es\<rparr>)
           else \<lparr>nodes = [], edges = []\<rparr>))"

text \<open>
  The outer \<^verbatim>\<open>try\<close> of lines 164--229: the pair \<open>(items, graph_context)\<close> when the
  \<^verbatim>\<open>return\<close> is reached. An exception of the first query or of the item loop
  skips the graph query.
\<close>

definition search_state :: "world \<Rightarrow> string \<Rightarrow> int \<Rightarrow> item list \<times> graph" where
  "search_state w query top_k =
     (case cognee_search w INSIGHTS query of
        Inl e \<Rightarrow> ([], \<lparr>nodes = [], edges = []\<rparr>)
      | Inr search_results \<Rightarrow>
          (case (if search_results \<noteq> [] then
                   process_results (py_str w) 0 (py_slice_to search_results top_k) []
                 else ([], None)) of
             (its, Some e) \<Rightarrow> (its, \<lparr>nodes = [], edges = []\<rparr>)
           | (its, None) \<Rightarrow> (its, graph_search w query top_k)))"

text \<open>Lines 231--234.\<close>

definition search_return :: "item list \<times> graph \<Rightarrow> search_response" where
  "search_return st =
     (case st of (its, gc) \<Rightarrow>
        \<lparr>items = its,
         graph_context = (if nodes gc \<noteq> [] \<or> edges gc \<noteq> [] then Some gc else None)\<rparr>)"

text \<open>\<^verbatim>\<open>CogneeClient.search\<close>. The call of \<^verbatim>\<open>initialize\<close> stands before the
  \<^verbatim>\<open>try\<close>: what it raises leaves \<^verbatim>\<open>search\<close>.\<close>

definition search ::
  "world \<Rightarrow> cognee_client \<Rightarrow> string \<Rightarrow> int \<Rightarrow> py_exc + (search_response \<times> cognee_client)" where
  "search w c query top_k =
     (case initialize w c of
        Inl e \<Rightarrow> Inl e
      | Inr c' \<Rightarrow> Inr (search_return (search_state w query top_k), c'))"

section \<open>The clamp as the specification words it\<close>

text \<open>
  The specification writes the clamp as \<^verbatim>\<open>max(0.0, min(1.0, score))\<close>, with the
  constants first. \<open>spec_clamp_score\<close> follows those words with the same builtins:
  \<^verbatim>\<open>min(1.0, score)\<close> keeps 1.0 unless \<^verbatim>\<open>score < 1.0\<close>, and \<^verbatim>\<open>max(0.0, m)\<close> keeps
  0.0 unless \<^verbatim>\<open>m > 0.0\<close>.
\<close>

definition spec_clamp_score :: "pyval \<Rightarrow> py_exc + pyval" where
  "spec_clamp_score sc =
     (case float_gt_val (Finite 1) sc of
        Inl e \<Rightarrow> Inl e
      | Inr b \<Rightarrow>
          (let m = (if b then sc else PFloat (Finite 1)) in
             (case float_lt_val (Finite 0) m of
                Inl e \<Rightarrow> Inl e
              | Inr b' \<Rightarrow> Inr (if b' then m else PFloat (Finite 0)))))"

section \<open>Fixtures\<close>

text \<open>
  A world for concrete runs: no environment variable is set (so the API key is
  missing), every configuration call returns, each of the two search modes has a fixed
  outcome, \<^verbatim>\<open>str\<close> prints every value the same way, and a set lists its distinct
  members. In \<open>readonly_world\<close> the
  data directory cannot be created. \<open>fresh_client\<close> is the client
  \<^verbatim>\<open>get_cognee_client\<close> builds in that environment.
\<close>

definition show_stub :: "pyval \<Rightarrow> string" where
  "show_stub v = ''<value>''"

definition stub_world :: "py_exc + pyval list \<Rightarrow> py_exc + pyval list \<Rightarrow> world" where
  "stub_world primary secondary =
     \<lparr>getenv = (\<lambda>name. None),
      set_llm_api_key = (\<lambda>key. None),
      resolve_path = (\<lambda>p. p),
      mkdir = (\<lambda>p. None),
      data_root_directory = (\<lambda>p. None),
      cognee_search = (\<lambda>t q. case t of INSIGHTS \<Rightarrow> primary | GRAPH_COMPLETION \<Rightarrow> secondary),
      py_str = show_stub,
      list_of_set = remdups\<rparr>"

definition readonly_world :: world where
  "readonly_world = (stub_world (Inr []) (Inr []))\<lparr>mkdir := (\<lambda>p. Some (OSError ''read-only''))\<rparr>"

definition fresh_client :: cognee_client where
  "fresh_client = \<lparr>data_dir = ''./cognee_data'', initialized = False, evidence_map = []\<rparr>"

section \<open>Auxiliary facts\<close>

lemmas eval_defs =
  search_def initialize_def configure_llm_def health_check_def stub_world_def
  fresh_client_def show_stub_def search_return_def search_state_def graph_search_def
  process_result_def make_item_def clamp_score_def py_max_def py_min_def
  float_gt_val_def float_lt_val_def fallback_score_def str_nat.simps
  py_slice_to_def py_get_def py_in_def py_index_def set_add_def

lemma py_slice_to_Nil: "py_slice_to [] k = []"
  by (simp add: py_slice_to_def)

lemma py_slice_to_length:
  "0 \<le> k \<Longrightarrow> int (length (py_slice_to xs k)) \<le> min (int (length xs)) k"
  by (simp add: py_slice_to_def)

text \<open>The loop only ever appends to the accumulator.\<close>

lemma process_results_acc:
  "process_results str i rs acc =
     (acc @ fst (process_results str i rs []), snd (process_results str i rs []))"
proof (induction rs arbitrary: i acc)
  case Nil
  then show ?case by simp
next
  case (Cons r rs)
  show ?case
  proof (cases "process_result str i r")
    case (Inl e)
    then show ?thesis by simp
  next
    case (Inr it)
    then show ?thesis
      using Cons.IH [of "Suc i" "acc @ [it]"] Cons.IH [of "Suc i" "[it]"] by simp
  qed
qed

lemma process_results_length:
  "length (fst (process_results str i rs acc)) \<le> length acc + length rs"
proof (induction rs arbitrary: i acc)
  case Nil
  then show ?case by simp
next
  case (Cons r rs)
  show ?case
  proof (cases "process_result str i r")
    case (Inl e)
    then show ?thesis by simp
  next
    case (Inr it)
    then show ?thesis using Cons.IH [of "Suc i" "acc @ [it]"] by simp
  qed
qed

text \<open>The item at position \<open>j\<close> of the output comes from the record at position \<open>j\<close>
  of the input, processed with index \<open>i + j\<close>.\<close>

lemma process_results_nth:
  "j < length (fst (process_results str i rs [])) \<Longrightarrow>
     j < length rs \<and>
     process_result str (i + j) (rs ! j) = Inr (fst (process_results str i rs []) ! j)"
proof (induction rs arbitrary: i j)
  case Nil
  then show ?case by simp
next
  case (Cons r rs)
  show ?case
  proof (cases "process_result str i r")
    case (Inl e)
    with Cons.prems show ?thesis by simp
  next
    case (Inr it)
    have split:
      "fst (process_results str i (r # rs) []) = it # fst (process_results str (Suc i) rs [])"
      using Inr process_results_acc [of str "Suc i" rs "[it]"] by simp
    show ?thesis
    proof (cases j)
      case 0
      then show ?thesis using Inr split by simp
    next
      case (Suc j')
      with Cons.prems split have "j' < length (fst (process_results str (Suc i) rs []))"
        by simp
      from Cons.IH [OF this] show ?thesis using Suc split by simp
    qed
  qed
qed

text \<open>A record that raises ends the loop with the items of the records before it.\<close>

lemma process_results_fail:
  "n < length rs \<Longrightarrow> length its = n \<Longrightarrow>
   (\<forall>j<n. process_result str (i + j) (rs ! j) = Inr (its ! j)) \<Longrightarrow>
   process_result str (i + n) (rs ! n) = Inl e \<Longrightarrow>
   process_results str i rs acc = (acc @ its, Some e)"
proof (induction rs arbitrary: i n its acc)
  case Nil
  then show ?case by simp
next
  case (Cons r rs)
  show ?case
  proof (cases n)
    case 0
    with Cons.prems show ?thesis by simp
  next
    case (Suc m)
    with Cons.prems obtain it its' where its: "its = it # its'" and len: "length its' = m"
      by (cases its) auto
    from Cons.prems(3) Suc have first: "process_result str i r = Inr it"
      using its by (auto dest: spec [of _ 0])
    have rest: "\<forall>j<m. process_result str (Suc i + j) (rs ! j) = Inr (its' ! j)"
    proof (intro allI impI)
      fix j assume "j < m"
      then have "Suc j < n" using Suc by simp
      with Cons.prems(3)
      have "process_result str (i + Suc j) ((r # rs) ! Suc j) = Inr (its ! Suc j)"
        by blast
      then show "process_result str (Suc i + j) (rs ! j) = Inr (its' ! j)"
        using its by simp
    qed
    have fail: "process_result str (Suc i + m) (rs ! m) = Inl e"
      using Cons.prems(4) Suc by simp
    have "m < length rs" using Cons.prems(1) Suc by simp
    from Cons.IH [OF this len rest fail, of "acc @ [it]"] first its show ?thesis by simp
  qed
qed

text \<open>
  The clamp does what its comment says on every number that is not NaN: the result
  is a number between 0 and 1. A value that is not a number raises.
\<close>

lemma clamp_score_bounds:
  assumes "clamp_score sc = Inr v" and "py_num sc \<noteq> Some NaN"
  shows "\<exists>x. py_num v = Some (Finite x) \<and> 0 \<le> x \<and> x \<le> 1"
proof (cases "py_num sc")
  case None
  with assms show ?thesis
    by (simp add: clamp_score_def py_max_def float_gt_val_def)
next
  case (Some f)
  with assms show ?thesis
    by (cases f)
       (auto simp: clamp_score_def py_max_def py_min_def float_gt_val_def float_lt_val_def
             split: if_splits)
qed

lemma item_score_bounds:
  assumes "process_result str i r = Inr it"
    and "py_num (fst (snd (extract_fields str i r))) \<noteq> Some NaN"
  shows "\<exists>x. py_num (score it) = Some (Finite x) \<and> 0 \<le> x \<and> x \<le> 1"
proof -
  obtain sn sc md where ex: "extract_fields str i r = (sn, sc, md)"
    by (cases "extract_fields str i r")
  with assms(1) have "clamp_score sc = Inr (score it)"
    by (auto simp: process_result_def make_item_def split: sum.splits)
  moreover from ex assms(2) have "py_num sc \<noteq> Some NaN" by simp
  ultimately show ?thesis by (rule clamp_score_bounds)
qed

lemma clamp_score_examples:
  "clamp_score (PFloat (Finite (57 / 10))) = Inr (PFloat (Finite 1))"
  "clamp_score (PFloat (Finite (- 2))) = Inr (PFloat (Finite 0))"
  "clamp_score (PFloat PosInf) = Inr (PFloat (Finite 1))"
  "clamp_score (PFloat NegInf) = Inr (PFloat (Finite 0))"
  by (simp_all add: clamp_score_def py_max_def py_min_def float_gt_val_def float_lt_val_def)

text \<open>
  The two orders of the clamp agree in value on every score except NaN, where the
  order of the specification gives 1.0 and the order of the source gives NaN.
\<close>

lemma clamp_score_agrees:
  assumes "py_num sc \<noteq> Some NaN"
  shows "map_sum id py_num (clamp_score sc) = map_sum id py_num (spec_clamp_score sc)"
proof (cases "py_num sc")
  case None
  then show ?thesis
    by (simp add: clamp_score_def spec_clamp_score_def py_max_def float_gt_val_def)
next
  case (Some f)
  with assms show ?thesis
    by (cases f)
       (auto simp: clamp_score_def spec_clamp_score_def py_max_def py_min_def
                   float_gt_val_def float_lt_val_def Let_def)
qed

lemma clamp_score_nan:
  "clamp_score (PFloat NaN) = Inr (PFloat NaN)"
  "spec_clamp_score (PFloat NaN) = Inr (PFloat (Finite 1))"
  by (simp_all add: clamp_score_def spec_clamp_score_def py_max_def py_min_def
        float_gt_val_def float_lt_val_def)

text \<open>
  An exception in the graph loop, unlike one of the graph query, keeps the edges
  appended before it: the nodes are lost, the graph is returned.
\<close>

lemma graph_loop_failure_keeps_edges:
  "search (stub_world (Inr [])
       (Inr [PDict [(''source'', PStr ''X''), (''target'', PStr ''Y'')],
             PDict [(''name'', PList [])]]))
     fresh_client ''q'' 5
   = Inr (\<lparr>items = [],
           graph_context =
             Some \<lparr>nodes = [],
                   edges = [\<lparr>edge_from = PStr ''X'', edge_to = PStr ''Y'',
                             relation = PStr ''related_to'',
                             weight = PFloat (Finite (1 / 2))\<rparr>]\<rparr>\<rparr>,
          fresh_client\<lparr>initialized := True\<rparr>)"
  by (simp add: eval_defs)

section \<open>Failure of the primary query\<close>

text \<open>
  C1. When the first call of the library's search raises, \<^verbatim>\<open>search\<close> returns an
  empty item list and no graph, for every query and every \<open>top_k\<close>, and raises
  nothing. The query is only issued once \<^verbatim>\<open>initialize\<close> has returned.
\<close>

theorem search_primary_failure:
  assumes "initialize w c = Inr c'"
    and "cognee_search w INSIGHTS query = Inl e"
  shows "search w c query top_k = Inr (\<lparr>items = [], graph_context = None\<rparr>, c')"
  using assms by (simp add: search_def search_state_def search_return_def)

theorem search_primary_failure_witness:
  "initialize (stub_world (Inl (BackendError ''unreachable'')) (Inr [])) fresh_client
     = Inr (fresh_client\<lparr>initialized := True\<rparr>)
   \<and> cognee_search (stub_world (Inl (BackendError ''unreachable'')) (Inr [])) INSIGHTS ''q''
     = Inl (BackendError ''unreachable'')
   \<and> search (stub_world (Inl (BackendError ''unreachable'')) (Inr [])) fresh_client ''q'' 5
     = Inr (\<lparr>items = [], graph_context = None\<rparr>, fresh_client\<lparr>initialized := True\<rparr>)"
proof -
  have i: "initialize (stub_world (Inl (BackendError ''unreachable'')) (Inr [])) fresh_client
     = Inr (fresh_client\<lparr>initialized := True\<rparr>)"
    by (simp add: initialize_def configure_llm_def stub_world_def fresh_client_def)
  have q: "cognee_search (stub_world (Inl (BackendError ''unreachable'')) (Inr [])) INSIGHTS ''q''
     = Inl (BackendError ''unreachable'')"
    by (simp add: stub_world_def)
  show ?thesis using i q search_primary_failure [OF i q, of 5] by simp
qed

section \<open>Scores\<close>

text \<open>
  C2. The score of every item is meant to lie in the closed interval from 0 to 1.
  The source clamps with \<^verbatim>\<open>min(max(score, 0.0), 1.0)\<close>; both builtins keep their
  first argument when the comparison is false, and every comparison with NaN is
  false, so a NaN score passes through both. The run below is the search over the
  single record \<^verbatim>\<open>{"text": "x", "score": float("nan")}\<close>: the item is produced and
  its score is NaN. For every score that is a number other than NaN the bound holds
  (\<open>item_score_bounds\<close>), and 5.7 and -2.0 go to 1.0 and 0.0
  (\<open>clamp_score_examples\<close>).
\<close>

theorem score_nan_not_clamped:
  "search (stub_world (Inr [PDict [(''text'', PStr ''x''), (''score'', PFloat NaN)]]) (Inr []))
      fresh_client ''q'' 5
   = Inr (\<lparr>items = [\<lparr>cognee_id = ''result_0'', snippet = PStr ''x'', score = PFloat NaN,
                      metadata = PDict []\<rparr>],
           graph_context = None\<rparr>,
          fresh_client\<lparr>initialized := True\<rparr>)"
  by (simp add: eval_defs)

section \<open>Number of items\<close>

text \<open>
  C3. For every raw result sequence \<open>rs\<close> and every \<open>top_k\<close> of the range the
  request schema admits (\<open>1 \<le> topK \<le> 50\<close>), the number of items returned is at most
  \<open>min (length rs) top_k\<close>: the item at position \<open>j\<close> is made from the record at
  position \<open>j\<close>, which is one of the first \<open>top_k\<close> records, so that only those
  are processed and each gives at most one item.
\<close>

theorem search_items_bound:
  assumes "1 \<le> top_k" and "top_k \<le> 50"
    and "cognee_search w INSIGHTS query = Inr rs"
    and "search w c query top_k = Inr (resp, c')"
  shows "int (length (items resp)) \<le> min (int (length rs)) top_k
       \<and> (\<forall>j<length (items resp).
             int j < top_k \<and> j < length rs
             \<and> process_result (py_str w) j (rs ! j) = Inr (items resp ! j))"
proof -
  let ?sl = "py_slice_to rs top_k"
  let ?out = "fst (process_results (py_str w) 0 ?sl [])"
  have k: "0 \<le> top_k" using assms(1) by simp
  have take: "?sl = take (nat top_k) rs"
    using k by (simp add: py_slice_to_def)
  have sl: "int (length ?sl) \<le> min (int (length rs)) top_k"
    using k by (rule py_slice_to_length)
  have len: "length ?out \<le> length ?sl"
    using process_results_length [of "py_str w" 0 ?sl "[]"] by simp
  have out: "items resp = ?out"
  proof (cases "rs = []")
    case True
    with assms(3,4) show ?thesis
      by (auto simp: search_def search_state_def search_return_def py_slice_to_Nil
               split: sum.splits)
  next
    case False
    with assms(3,4) show ?thesis
      by (auto simp: search_def search_state_def search_return_def
               split: sum.splits prod.splits option.splits)
  qed
  have each: "int j < top_k \<and> j < length rs
      \<and> process_result (py_str w) j (rs ! j) = Inr (items resp ! j)"
    if "j < length (items resp)" for j
  proof -
    from that out have j: "j < length ?out" by simp
    from process_results_nth [OF j]
    have in_sl: "j < length ?sl"
      and made: "process_result (py_str w) j (?sl ! j) = Inr (?out ! j)"
      by simp_all
    from in_sl take have "j < nat top_k" and "j < length rs" by simp_all
    moreover from this take have "?sl ! j = rs ! j" by simp
    ultimately show ?thesis using made out k by simp
  qed
  from sl len out each show ?thesis by simp
qed

theorem search_items_bound_witness:
  "(1::int) \<le> 2 \<and> (2::int) \<le> 50
   \<and> cognee_search (stub_world (Inr [PInt 1, PInt 2, PInt 3]) (Inr [])) INSIGHTS ''q''
       = Inr [PInt 1, PInt 2, PInt 3]
   \<and> search (stub_world (Inr [PInt 1, PInt 2, PInt 3]) (Inr [])) fresh_client ''q'' 2
       = Inr (\<lparr>items = [\<lparr>cognee_id = ''result_0'', snippet = PStr ''<value>'',
                           score = PFloat (Finite 1), metadata = PDict []\<rparr>,
                          \<lparr>cognee_id = ''result_1'', snippet = PStr ''<value>'',
                           score = PFloat (Finite (9 / 10)), metadata = PDict []\<rparr>],
               graph_context = None\<rparr>, fresh_client\<lparr>initialized := True\<rparr>)
   \<and> (2::int) \<le> min (int (length [PInt 1, PInt 2, PInt 3])) 2
   \<and> process_result show_stub 1 (PInt 2)
       = Inr \<lparr>cognee_id = ''result_1'', snippet = PStr ''<value>'',
              score = PFloat (Finite (9 / 10)), metadata = PDict []\<rparr>"
proof -
  let ?w = "stub_world (Inr [PInt 1, PInt 2, PInt 3]) (Inr [])"
  let ?i0 = "\<lparr>cognee_id = ''result_0'', snippet = PStr ''<value>'',
               score = PFloat (Finite 1), metadata = PDict []\<rparr>"
  let ?i1 = "\<lparr>cognee_id = ''result_1'', snippet = PStr ''<value>'',
               score = PFloat (Finite (9 / 10)), metadata = PDict []\<rparr>"
  let ?resp = "\<lparr>items = [?i0, ?i1], graph_context = None\<rparr>"
  have q: "cognee_search ?w INSIGHTS ''q'' = Inr [PInt 1, PInt 2, PInt 3]"
    by (simp add: stub_world_def)
  have s: "search ?w fresh_client ''q'' 2 = Inr (?resp, fresh_client\<lparr>initialized := True\<rparr>)"
    by (simp add: eval_defs)
  have lo: "(1::int) \<le> 2" and hi: "(2::int) \<le> 50" by simp_all
  note t = search_items_bound [OF lo hi q s]
  from t have b: "int (length (items ?resp)) \<le> min (int (length [PInt 1, PInt 2, PInt 3])) 2"
    by (rule conjunct1)
  have "(1::nat) < length (items ?resp)" by simp
  with t have "process_result (py_str ?w) 1 ([PInt 1, PInt 2, PInt 3] ! 1) = Inr (items ?resp ! 1)"
    by blast
  then have r: "process_result show_stub 1 (PInt 2) = Inr ?i1"
    by (simp add: stub_world_def)
  from q s b r show ?thesis by simp
qed

text \<open>
  \<^verbatim>\<open>search\<close> itself does not check the range: outside it, a negative \<open>top_k\<close>
  makes the slice count from the end.
\<close>

lemma negative_top_k_slice:
  "py_slice_to [PInt 1, PInt 2, PInt 3] (- 1) = [PInt 1, PInt 2]"
  by (simp add: py_slice_to_def)

section \<open>Mapping-shaped records\<close>



section \<open>Snippets\<close>

text \<open>
  C5. The snippet of a produced item is the extracted value cut to its first 500
  elements and nothing else: an extracted string \<open>s\<close> gives \<open>take 500 s\<close>, which is \<open>s\<close>
  itself when \<open>s\<close> has at most 500 characters. The record
  \<^verbatim>\<open>{"text": "A"*600, "score": 0.9}\<close> gives a snippet of 500 characters and the
  score 0.9.
\<close>

theorem snippet_truncated:
  "(\<forall>it. process_result str i r = Inr it \<longrightarrow>
       py_slice_500 (fst (extract_fields str i r)) = Inr (snippet it)
     \<and> (\<forall>s. fst (extract_fields str i r) = PStr s \<longrightarrow>
            snippet it = PStr (take 500 s) \<and> (length s \<le> 500 \<longrightarrow> snippet it = PStr s)))
   \<and> process_result str i
         (PDict [(''text'', PStr (replicate 600 CHR ''A'')), (''score'', PFloat (Finite (9 / 10)))])
       = Inr \<lparr>cognee_id = ''result_'' @ str_nat i, snippet = PStr (replicate 500 CHR ''A''),
              score = PFloat (Finite (9 / 10)), metadata = PDict []\<rparr>
   \<and> length (replicate 500 CHR ''A'') = 500"
proof (intro conjI allI impI)
  fix it
  assume a: "process_result str i r = Inr it"
  then show b: "py_slice_500 (fst (extract_fields str i r)) = Inr (snippet it)"
    by (cases "extract_fields str i r")
       (auto simp: process_result_def make_item_def split: sum.splits)
  fix s
  assume "fst (extract_fields str i r) = PStr s"
  with b show c: "snippet it = PStr (take 500 s)"
    by (simp add: py_slice_to_def)
  assume "length s \<le> 500"
  with c show "snippet it = PStr s" by simp
next
  show "process_result str i
         (PDict [(''text'', PStr (replicate 600 CHR ''A'')), (''score'', PFloat (Finite (9 / 10)))])
       = Inr \<lparr>cognee_id = ''result_'' @ str_nat i, snippet = PStr (replicate 500 CHR ''A''),
              score = PFloat (Finite (9 / 10)), metadata = PDict []\<rparr>"
    by (simp add: process_result_def make_item_def py_get_def py_slice_to_def clamp_score_def
          py_max_def py_min_def float_gt_val_def float_lt_val_def)
next
  show "length (replicate 500 CHR ''A'') = 500" by simp
qed

theorem snippet_truncated_witness:
  "process_result show_stub 0 (PDict [(''text'', PStr ''short'')])
     = Inr \<lparr>cognee_id = ''result_0'', snippet = PStr ''short'', score = PFloat (Finite 1),
            metadata = PDict []\<rparr>
   \<and> fst (extract_fields show_stub 0 (PDict [(''text'', PStr ''short'')])) = PStr ''short''
   \<and> length ''short'' \<le> 500
   \<and> py_slice_500 (PStr ''short'') = Inr (PStr ''short'')"
  using snippet_truncated [of show_stub 0 "PDict [(''text'', PStr ''short'')]"]
  by (simp add: eval_defs)

section \<open>The graph fragment\<close>

text \<open>
  What the graph loop has collected when it ends or raises is the state
  \<open>graph_loop\<close> returns: the names added to \<^verbatim>\<open>seen_nodes\<close> and the edges appended.
  The edges are appended to \<^verbatim>\<open>graph_context\<close> itself; the names reach it only
  through the assignment after the loop, which a raise skips. For the two records
  \<^verbatim>\<open>{"name": "n"}\<close> and \<^verbatim>\<open>{"name": []}\<close> the name of the first is collected, the
  second raises, and the search returns no graph.
\<close>

theorem collected_node_dropped_counterexample:
  "graph_loop show_stub
      [PDict [(''name'', PStr ''n'')], PDict [(''name'', PList [])]] ([], [])
     = (([PStr ''n''], []), Some TypeError)
   \<and> search (stub_world (Inr [])
         (Inr [PDict [(''name'', PStr ''n'')], PDict [(''name'', PList [])]]))
       fresh_client ''q'' 5
     = Inr (\<lparr>items = [], graph_context = None\<rparr>, fresh_client\<lparr>initialized := True\<rparr>)"
  by (simp add: eval_defs)

text \<open>
  C6 (amended). \<^verbatim>\<open>search\<close> never returns a graph without nodes and without
  edges, and no graph record gives no graph. When the graph loop runs to its end,
  the graph is \<^verbatim>\<open>None\<close> exactly when no node and no edge was collected, and
  otherwise it carries the collected nodes (as \<^verbatim>\<open>list(seen_nodes)\<close> lists them) and
  edges. When the graph loop raises, the names collected so far are dropped: the
  graph is \<^verbatim>\<open>None\<close> exactly when no edge was collected, and otherwise it carries
  the collected edges and no node.
\<close>

theorem graph_null_unless_collected:
  "search w c query top_k = Inr (resp, c') \<longrightarrow>
     (\<forall>g. graph_context resp = Some g \<longrightarrow> nodes g \<noteq> [] \<or> edges g \<noteq> [])
     \<and> (cognee_search w GRAPH_COMPLETION query = Inr [] \<longrightarrow> graph_context resp = None)
     \<and> (\<forall>rs grs seen es x.
          cognee_search w INSIGHTS query = Inr rs
          \<and> snd (process_results (py_str w) 0 (py_slice_to rs top_k) []) = None
          \<and> cognee_search w GRAPH_COMPLETION query = Inr grs \<and> grs \<noteq> []
          \<and> graph_loop (py_str w) (py_slice_to grs top_k) ([], []) = ((seen, es), x)
          \<longrightarrow> (x = None \<longrightarrow>
                 graph_context resp =
                   (if list_of_set w seen \<noteq> [] \<or> es \<noteq> []
                    then Some \<lparr>nodes = list_of_set w seen, edges = es\<rparr> else None))
              \<and> (x \<noteq> None \<longrightarrow>
                 graph_context resp =
                   (if es \<noteq> [] then Some \<lparr>nodes = [], edges = es\<rparr> else None))
              \<and> ((\<forall>xs. (list_of_set w xs = []) = (xs = [])) \<longrightarrow>
                   (graph_context resp = None \<longleftrightarrow> es = [] \<and> (x = None \<longrightarrow> seen = []))))"
proof (intro impI)
  assume a: "search w c query top_k = Inr (resp, c')"
  then have resp: "resp = search_return (search_state w query top_k)"
    by (auto simp: search_def split: sum.splits)
  have nonempty: "nodes g \<noteq> [] \<or> edges g \<noteq> []" if "graph_context resp = Some g" for g
    using that resp
    by (cases "search_state w query top_k") (auto simp: search_return_def split: if_splits)
  have none: "graph_context resp = None" if "cognee_search w GRAPH_COMPLETION query = Inr []"
    using that resp
    by (auto simp: search_return_def search_state_def graph_search_def
             split: sum.splits prod.splits option.splits if_splits)
  have loop: "(x = None \<longrightarrow>
                 graph_context resp =
                   (if list_of_set w seen \<noteq> [] \<or> es \<noteq> []
                    then Some \<lparr>nodes = list_of_set w seen, edges = es\<rparr> else None))
              \<and> (x \<noteq> None \<longrightarrow>
                 graph_context resp =
                   (if es \<noteq> [] then Some \<lparr>nodes = [], edges = es\<rparr> else None))
              \<and> ((\<forall>xs. (list_of_set w xs = []) = (xs = [])) \<longrightarrow>
                   (graph_context resp = None \<longleftrightarrow> es = [] \<and> (x = None \<longrightarrow> seen = [])))"
    if h: "cognee_search w INSIGHTS query = Inr rs
          \<and> snd (process_results (py_str w) 0 (py_slice_to rs top_k) []) = None
          \<and> cognee_search w GRAPH_COMPLETION query = Inr grs \<and> grs \<noteq> []
          \<and> graph_loop (py_str w) (py_slice_to grs top_k) ([], []) = ((seen, es), x)"
    for rs grs seen es x
  proof -
    have st: "snd (search_state w query top_k) = graph_search w query top_k"
      using h
      by (cases "process_results (py_str w) 0 (py_slice_to rs top_k) []")
         (auto simp: search_state_def py_slice_to_Nil split: option.splits)
    have gs: "graph_search w query top_k =
        (case x of None \<Rightarrow> \<lparr>nodes = list_of_set w seen, edges = es\<rparr>
         | Some e \<Rightarrow> \<lparr>nodes = [], edges = es\<rparr>)"
      using h by (simp add: graph_search_def split: option.splits)
    have gc: "graph_context resp =
        (let gc = (case x of None \<Rightarrow> \<lparr>nodes = list_of_set w seen, edges = es\<rparr>
                   | Some e \<Rightarrow> \<lparr>nodes = [], edges = es\<rparr>)
         in if nodes gc \<noteq> [] \<or> edges gc \<noteq> [] then Some gc else None)"
      using resp st gs
      by (cases "search_state w query top_k") (simp add: search_return_def Let_def)
    show ?thesis
    proof (cases x)
      case None
      with gc show ?thesis by (auto simp: Let_def)
    next
      case (Some e)
      with gc show ?thesis by (auto simp: Let_def)
    qed
  qed
  from nonempty none loop
  show "(\<forall>g. graph_context resp = Some g \<longrightarrow> nodes g \<noteq> [] \<or> edges g \<noteq> [])
     \<and> (cognee_search w GRAPH_COMPLETION query = Inr [] \<longrightarrow> graph_context resp = None)
     \<and> (\<forall>rs grs seen es x.
          cognee_search w INSIGHTS query = Inr rs
          \<and> snd (process_results (py_str w) 0 (py_slice_to rs top_k) []) = None
          \<and> cognee_search w GRAPH_COMPLETION query = Inr grs \<and> grs \<noteq> []
          \<and> graph_loop (py_str w) (py_slice_to grs top_k) ([], []) = ((seen, es), x)
          \<longrightarrow> (x = None \<longrightarrow>
                 graph_context resp =
                   (if list_of_set w seen \<noteq> [] \<or> es \<noteq> []
                    then Some \<lparr>nodes = list_of_set w seen, edges = es\<rparr> else None))
              \<and> (x \<noteq> None \<longrightarrow>
                 graph_context resp =
                   (if es \<noteq> [] then Some \<lparr>nodes = [], edges = es\<rparr> else None))
              \<and> ((\<forall>xs. (list_of_set w xs = []) = (xs = [])) \<longrightarrow>
                   (graph_context resp = None \<longleftrightarrow> es = [] \<and> (x = None \<longrightarrow> seen = []))))"
    by blast
qed

theorem graph_null_unless_collected_witness:
  "search (stub_world (Inr [])
       (Inr [PObj [(''name'', PStr ''n'')], PDict [(''source'', PStr ''X''), (''target'', PStr ''Y'')]]))
     fresh_client ''q'' 5
   = Inr (\<lparr>items = [],
           graph_context =
             Some \<lparr>nodes = [PStr ''<value>''],
                   edges = [\<lparr>edge_from = PStr ''X'', edge_to = PStr ''Y'',
                             relation = PStr ''related_to'',
                             weight = PFloat (Finite (1 / 2))\<rparr>]\<rparr>\<rparr>,
          fresh_client\<lparr>initialized := True\<rparr>)
   \<and> graph_loop show_stub
        (py_slice_to [PObj [(''name'', PStr ''n'')],
                      PDict [(''source'', PStr ''X''), (''target'', PStr ''Y'')]] 5) ([], [])
       = (([PStr ''<value>''],
           [\<lparr>edge_from = PStr ''X'', edge_to = PStr ''Y'', relation = PStr ''related_to'',
             weight = PFloat (Finite (1 / 2))\<rparr>]), None)
   \<and> search (stub_world (Inr [])
       (Inr [PDict [(''source'', PStr ''X''), (''target'', PStr ''Y'')],
             PDict [(''name'', PStr ''n'')], PDict [(''name'', PList [])]]))
     fresh_client ''q'' 5
   = Inr (\<lparr>items = [],
           graph_context =
             Some \<lparr>nodes = [],
                   edges = [\<lparr>edge_from = PStr ''X'', edge_to = PStr ''Y'',
                             relation = PStr ''related_to'',
                             weight = PFloat (Finite (1 / 2))\<rparr>]\<rparr>\<rparr>,
          fresh_client\<lparr>initialized := True\<rparr>)
   \<and> graph_loop show_stub
        (py_slice_to [PDict [(''source'', PStr ''X''), (''target'', PStr ''Y'')],
                      PDict [(''name'', PStr ''n'')], PDict [(''name'', PList [])]] 5) ([], [])
       = (([PStr ''n''],
           [\<lparr>edge_from = PStr ''X'', edge_to = PStr ''Y'', relation = PStr ''related_to'',
             weight = PFloat (Finite (1 / 2))\<rparr>]), Some TypeError)
   \<and> snd (process_results show_stub 0 (py_slice_to [] 5) []) = None
   \<and> (\<forall>xs. (list_of_set (stub_world (Inr [])
             (Inr [PDict [(''source'', PStr ''X''), (''target'', PStr ''Y'')],
                   PDict [(''name'', PStr ''n'')], PDict [(''name'', PList [])]])) xs = [])
            = (xs = []))
   \<and> cognee_search (stub_world (Inr []) (Inr [])) GRAPH_COMPLETION ''q'' = Inr []
   \<and> search (stub_world (Inr []) (Inr [])) fresh_client ''q'' 5
     = Inr (\<lparr>items = [], graph_context = None\<rparr>, fresh_client\<lparr>initialized := True\<rparr>)"
proof -
  let ?e = "\<lparr>edge_from = PStr ''X'', edge_to = PStr ''Y'', relation = PStr ''related_to'',
             weight = PFloat (Finite (1 / 2))\<rparr>"
  let ?g1 = "[PObj [(''name'', PStr ''n'')], PDict [(''source'', PStr ''X''), (''target'', PStr ''Y'')]]"
  let ?g2 = "[PDict [(''source'', PStr ''X''), (''target'', PStr ''Y'')],
              PDict [(''name'', PStr ''n'')], PDict [(''name'', PList [])]]"
  let ?w1 = "stub_world (Inr []) (Inr ?g1)"
  let ?w2 = "stub_world (Inr []) (Inr ?g2)"
  let ?w3 = "stub_world (Inr []) (Inr [])"
  let ?c = "fresh_client\<lparr>initialized := True\<rparr>"
  have i1: "initialize ?w1 fresh_client = Inr ?c"
    and i2: "initialize ?w2 fresh_client = Inr ?c"
    and i3: "initialize ?w3 fresh_client = Inr ?c"
    by (simp_all add: initialize_def configure_llm_def stub_world_def fresh_client_def)
  obtain r1 where s1: "search ?w1 fresh_client ''q'' 5 = Inr (r1, ?c)"
    using i1 by (simp add: search_def)
  obtain r2 where s2: "search ?w2 fresh_client ''q'' 5 = Inr (r2, ?c)"
    using i2 by (simp add: search_def)
  obtain r3 where s3: "search ?w3 fresh_client ''q'' 5 = Inr (r3, ?c)"
    using i3 by (simp add: search_def)
  have it1: "items r1 = []" and it2: "items r2 = []" and it3: "items r3 = []"
    using s1 s2 s3 i1 i2 i3
    by (auto simp: search_def search_state_def search_return_def stub_world_def
             split: prod.splits)
  have p: "snd (process_results show_stub 0 (py_slice_to [] 5) []) = None"
    by (simp add: py_slice_to_def)
  have l1: "graph_loop show_stub (py_slice_to ?g1 5) ([], []) = (([PStr ''<value>''], [?e]), None)"
    by (simp add: eval_defs)
  have l2: "graph_loop show_stub (py_slice_to ?g2 5) ([], []) = (([PStr ''n''], [?e]), Some TypeError)"
    by (simp add: eval_defs)
  have h1: "cognee_search ?w1 INSIGHTS ''q'' = Inr []
          \<and> snd (process_results (py_str ?w1) 0 (py_slice_to [] 5) []) = None
          \<and> cognee_search ?w1 GRAPH_COMPLETION ''q'' = Inr ?g1 \<and> ?g1 \<noteq> []
          \<and> graph_loop (py_str ?w1) (py_slice_to ?g1 5) ([], []) = (([PStr ''<value>''], [?e]), None)"
    using p l1 by (simp add: stub_world_def)
  have h2: "cognee_search ?w2 INSIGHTS ''q'' = Inr []
          \<and> snd (process_results (py_str ?w2) 0 (py_slice_to [] 5) []) = None
          \<and> cognee_search ?w2 GRAPH_COMPLETION ''q'' = Inr ?g2 \<and> ?g2 \<noteq> []
          \<and> graph_loop (py_str ?w2) (py_slice_to ?g2 5) ([], []) = (([PStr ''n''], [?e]), Some TypeError)"
    using p l2 by (simp add: stub_world_def)
  have q3: "cognee_search ?w3 GRAPH_COMPLETION ''q'' = Inr []"
    by (simp add: stub_world_def)
  have ls: "list_of_set ?w1 [PStr ''<value>''] = [PStr ''<value>'']"
    by (simp add: stub_world_def)
  have ls2: "\<forall>xs. (list_of_set ?w2 xs = []) = (xs = [])"
    by (simp add: stub_world_def)
  note t4 = graph_null_unless_collected [THEN mp, OF s2, THEN conjunct2, THEN conjunct2,
      THEN spec, THEN spec, THEN spec, THEN spec, THEN spec, THEN mp, OF h2, THEN conjunct2,
      THEN conjunct2, THEN mp, OF ls2]
  have n2: "graph_context r2 \<noteq> None"
    using t4 by simp
  note t1 = graph_null_unless_collected [THEN mp, OF s1, THEN conjunct2, THEN conjunct2,
      THEN spec, THEN spec, THEN spec, THEN spec, THEN spec, THEN mp, OF h1, THEN conjunct1,
      THEN mp, OF refl]
  note t2 = graph_null_unless_collected [THEN mp, OF s2, THEN conjunct2, THEN conjunct2,
      THEN spec, THEN spec, THEN spec, THEN spec, THEN spec, THEN mp, OF h2, THEN conjunct2,
      THEN conjunct1, THEN mp]
  note t3 = graph_null_unless_collected [THEN mp, OF s3, THEN conjunct2, THEN conjunct1,
      THEN mp, OF q3]
  have g1: "graph_context r1 = Some \<lparr>nodes = [PStr ''<value>''], edges = [?e]\<rparr>"
    using t1 ls by simp
  have "Some TypeError \<noteq> None" by simp
  from t2 [OF this] have g2: "graph_context r2 = Some \<lparr>nodes = [], edges = [?e]\<rparr>"
    by simp
  have e1: "r1 = \<lparr>items = [], graph_context = Some \<lparr>nodes = [PStr ''<value>''], edges = [?e]\<rparr>\<rparr>"
    using it1 g1 by (cases r1) simp
  have e2: "r2 = \<lparr>items = [], graph_context = Some \<lparr>nodes = [], edges = [?e]\<rparr>\<rparr>"
    using it2 g2 by (cases r2) simp
  have e3: "r3 = \<lparr>items = [], graph_context = None\<rparr>"
    using it3 t3 by (cases r3) simp
  from s1 s2 s3 e1 e2 e3 l1 l2 p ls2 n2 q3 show ?thesis by simp
qed

text \<open>
  The loop body adds the value of \<^verbatim>\<open>name\<close> to the set before it looks at
  \<^verbatim>\<open>source\<close> and \<^verbatim>\<open>target\<close>. A list is unhashable: for the record
  \<^verbatim>\<open>{"name": [], "source": "X", "target": "Y"}\<close> the step raises \<^verbatim>\<open>TypeError\<close>, no
  edge is appended, and the search returns no graph.
\<close>

theorem unhashable_name_counterexample:
  "graph_step show_stub
      (PDict [(''name'', PList []), (''source'', PStr ''X''), (''target'', PStr ''Y'')]) ([], [])
     = Inl TypeError
   \<and> search (stub_world (Inr [])
         (Inr [PDict [(''name'', PList []), (''source'', PStr ''X''), (''target'', PStr ''Y'')]]))
       fresh_client ''q'' 5
     = Inr (\<lparr>items = [], graph_context = None\<rparr>, fresh_client\<lparr>initialized := True\<rparr>)"
  by (simp add: eval_defs)

text \<open>
  C7 (amended). When the loop processes a graph record that is a dict with both
  \<^verbatim>\<open>source\<close> and \<^verbatim>\<open>target\<close>, and whose \<^verbatim>\<open>name\<close> value, if there is one, is
  hashable, it appends the edge from \<^verbatim>\<open>source\<close> to \<^verbatim>\<open>target\<close>, with the relation
  of the record or \<^verbatim>\<open>"related_to"\<close>, and the weight of the record or 0.5. The record
  \<^verbatim>\<open>{"source": "X", "target": "Y"}\<close> gives the edge from X to Y with relation
  \<^verbatim>\<open>"related_to"\<close> and weight 0.5.
\<close>

theorem edge_appended:
  "(map_of d ''source'' = Some s \<and> map_of d ''target'' = Some t
      \<and> (\<forall>v. map_of d ''name'' = Some v \<longrightarrow> py_hashable v)
    \<longrightarrow> (\<exists>seen'. graph_step str (PDict d) (seen, es)
          = Inr (seen',
                 es @ [\<lparr>edge_from = s, edge_to = t,
                        relation = (case map_of d ''relation'' of
                                      Some r \<Rightarrow> r | None \<Rightarrow> PStr ''related_to''),
                        weight = (case map_of d ''weight'' of
                                    Some x \<Rightarrow> x | None \<Rightarrow> PFloat (Finite (1 / 2)))\<rparr>])))
   \<and> graph_step str (PDict [(''source'', PStr ''X''), (''target'', PStr ''Y'')]) (seen, es)
       = Inr (seen, es @ [\<lparr>edge_from = PStr ''X'', edge_to = PStr ''Y'',
                            relation = PStr ''related_to'',
                            weight = PFloat (Finite (1 / 2))\<rparr>])"
proof (intro conjI impI)
  assume a: "map_of d ''source'' = Some s \<and> map_of d ''target'' = Some t
      \<and> (\<forall>v. map_of d ''name'' = Some v \<longrightarrow> py_hashable v)"
  show "\<exists>seen'. graph_step str (PDict d) (seen, es)
          = Inr (seen',
                 es @ [\<lparr>edge_from = s, edge_to = t,
                        relation = (case map_of d ''relation'' of
                                      Some r \<Rightarrow> r | None \<Rightarrow> PStr ''related_to''),
                        weight = (case map_of d ''weight'' of
                                    Some x \<Rightarrow> x | None \<Rightarrow> PFloat (Finite (1 / 2)))\<rparr>])"
  proof (cases "map_of d ''name''")
    case None
    with a show ?thesis
      by (simp add: py_in_def py_index_def py_get_def)
  next
    case (Some v)
    with a have "py_hashable v" by simp
    with a Some show ?thesis
      by (simp add: py_in_def py_index_def py_get_def set_add_def)
  qed
next
  show "graph_step str (PDict [(''source'', PStr ''X''), (''target'', PStr ''Y'')]) (seen, es)
       = Inr (seen, es @ [\<lparr>edge_from = PStr ''X'', edge_to = PStr ''Y'',
                            relation = PStr ''related_to'',
                            weight = PFloat (Finite (1 / 2))\<rparr>])"
    by (simp add: py_in_def py_index_def py_get_def)
qed

theorem edge_appended_witness:
  "map_of [(''name'', PStr ''n''), (''source'', PStr ''a''), (''target'', PStr ''b''),
           (''weight'', PInt 2)] ''source'' = Some (PStr ''a'')
   \<and> map_of [(''name'', PStr ''n''), (''source'', PStr ''a''), (''target'', PStr ''b''),
           (''weight'', PInt 2)] ''target'' = Some (PStr ''b'')
   \<and> map_of [(''name'', PStr ''n''), (''source'', PStr ''a''), (''target'', PStr ''b''),
           (''weight'', PInt 2)] ''name'' = Some (PStr ''n'')
   \<and> py_hashable (PStr ''n'')
   \<and> graph_step show_stub
        (PDict [(''name'', PStr ''n''), (''source'', PStr ''a''), (''target'', PStr ''b''),
                (''weight'', PInt 2)]) ([], [])
       = Inr ([PStr ''n''],
              [\<lparr>edge_from = PStr ''a'', edge_to = PStr ''b'', relation = PStr ''related_to'',
                weight = PInt 2\<rparr>])"
  using edge_appended [of "[(''name'', PStr ''n''), (''source'', PStr ''a''),
                            (''target'', PStr ''b''), (''weight'', PInt 2)]"
                          "PStr ''a''" "PStr ''b''" show_stub "[]" "[]"]
  by (simp add: eval_defs)

section \<open>Failure of the graph query\<close>

text \<open>
  C8. When the first query has returned and the graph query raises, \<^verbatim>\<open>search\<close>
  raises nothing and returns no graph together with the items the item loop produced
  from the first query, whatever the exception.
\<close>

theorem graph_failure_keeps_items:
  assumes "initialize w c = Inr c'"
    and "cognee_search w INSIGHTS query = Inr rs"
    and "cognee_search w GRAPH_COMPLETION query = Inl e"
  shows "search w c query top_k
         = Inr (\<lparr>items = fst (process_results (py_str w) 0 (py_slice_to rs top_k) []),
                 graph_context = None\<rparr>, c')"
proof (cases "rs = []")
  case True
  with assms show ?thesis
    by (simp add: search_def search_state_def search_return_def graph_search_def py_slice_to_Nil)
next
  case False
  with assms show ?thesis
    by (cases "process_results (py_str w) 0 (py_slice_to rs top_k) []")
       (auto simp: search_def search_state_def search_return_def graph_search_def
             split: option.splits)
qed

theorem graph_failure_keeps_items_witness:
  "initialize (stub_world (Inr [PStr ''a'', PStr ''b'']) (Inl (BackendError ''graph''))) fresh_client
     = Inr (fresh_client\<lparr>initialized := True\<rparr>)
   \<and> cognee_search (stub_world (Inr [PStr ''a'', PStr ''b'']) (Inl (BackendError ''graph'')))
        INSIGHTS ''q'' = Inr [PStr ''a'', PStr ''b'']
   \<and> cognee_search (stub_world (Inr [PStr ''a'', PStr ''b'']) (Inl (BackendError ''graph'')))
        GRAPH_COMPLETION ''q'' = Inl (BackendError ''graph'')
   \<and> search (stub_world (Inr [PStr ''a'', PStr ''b'']) (Inl (BackendError ''graph'')))
        fresh_client ''q'' 5
     = Inr (\<lparr>items = [\<lparr>cognee_id = ''result_0'', snippet = PStr ''<value>'',
                         score = PFloat (Finite 1), metadata = PDict []\<rparr>,
                        \<lparr>cognee_id = ''result_1'', snippet = PStr ''<value>'',
                         score = PFloat (Finite (9 / 10)), metadata = PDict []\<rparr>],
             graph_context = None\<rparr>, fresh_client\<lparr>initialized := True\<rparr>)"
proof -
  let ?w = "stub_world (Inr [PStr ''a'', PStr ''b'']) (Inl (BackendError ''graph''))"
  have i: "initialize ?w fresh_client = Inr (fresh_client\<lparr>initialized := True\<rparr>)"
    by (simp add: initialize_def configure_llm_def stub_world_def fresh_client_def)
  have p: "cognee_search ?w INSIGHTS ''q'' = Inr [PStr ''a'', PStr ''b'']"
    by (simp add: stub_world_def)
  have g: "cognee_search ?w GRAPH_COMPLETION ''q'' = Inl (BackendError ''graph'')"
    by (simp add: stub_world_def)
  have r: "process_results (py_str ?w) 0 (py_slice_to [PStr ''a'', PStr ''b''] 5) []
     = ([\<lparr>cognee_id = ''result_0'', snippet = PStr ''<value>'',
                         score = PFloat (Finite 1), metadata = PDict []\<rparr>,
                        \<lparr>cognee_id = ''result_1'', snippet = PStr ''<value>'',
                         score = PFloat (Finite (9 / 10)), metadata = PDict []\<rparr>], None)"
    by (simp add: eval_defs)
  show ?thesis using i p g r graph_failure_keeps_items [OF i p g, of 5] by simp
qed

section \<open>The health check\<close>

text \<open>
  With no \<^verbatim>\<open>OPENAI_API_KEY\<close> in the environment, \<^verbatim>\<open>_configure_llm\<close> logs a
  warning and returns; when the data directory can be set up, the health check
  answers \<^verbatim>\<open>True\<close>.
\<close>

theorem missing_key_healthy_counterexample:
  "getenv (stub_world (Inr []) (Inr [])) ''OPENAI_API_KEY'' = None
   \<and> health_check (stub_world (Inr []) (Inr [])) fresh_client
       = (True, fresh_client\<lparr>initialized := True\<rparr>)"
  by (simp add: eval_defs)

text \<open>
  C9 (amended). The health check answers \<^verbatim>\<open>False\<close> exactly when \<^verbatim>\<open>initialize\<close>
  raises: on a client not yet initialized, when handing the key to the library,
  creating the data directory or setting the data root fails. A missing or empty API
  key is not such a failure: the key is then not handed over at all, and the answer
  depends on the directory setup alone.
\<close>

theorem health_check_reports_initialize:
  "(fst (health_check w c) \<longleftrightarrow>
      initialized c
      \<or> (configure_llm w = None
         \<and> mkdir w (resolve_path w (data_dir c)) = None
         \<and> data_root_directory w (resolve_path w (data_dir c)) = None))
   \<and> (\<not> fst (health_check w c) \<longleftrightarrow> (\<exists>e. initialize w c = Inl e))
   \<and> (getenv w ''OPENAI_API_KEY'' = None \<or> getenv w ''OPENAI_API_KEY'' = Some []
        \<longrightarrow> configure_llm w = None)"
  by (auto simp: health_check_def initialize_def configure_llm_def Let_def
           split: option.splits sum.splits)

theorem health_check_reports_initialize_witness:
  "getenv (stub_world (Inr []) (Inr [])) ''OPENAI_API_KEY'' = None
   \<and> configure_llm (stub_world (Inr []) (Inr [])) = None
   \<and> fst (health_check (stub_world (Inr []) (Inr [])) fresh_client)
   \<and> mkdir readonly_world (resolve_path readonly_world (data_dir fresh_client))
       = Some (OSError ''read-only'')
   \<and> initialize readonly_world fresh_client = Inl (OSError ''read-only'')
   \<and> \<not> fst (health_check readonly_world fresh_client)"
  using health_check_reports_initialize [of "stub_world (Inr []) (Inr [])" fresh_client]
    health_check_reports_initialize [of readonly_world fresh_client]
  by (simp add: stub_world_def readonly_world_def fresh_client_def initialize_def
        configure_llm_def)

section \<open>Failure while processing a record\<close>

text \<open>
  C10. Once \<^verbatim>\<open>initialize\<close> has returned, \<^verbatim>\<open>search\<close> returns a response whatever
  the records are. When the record at position \<open>n\<close> of the truncated list raises and
  the records before it gave the items \<open>its\<close>, the response carries exactly \<open>its\<close>
  and no graph. A \<^verbatim>\<open>text\<close> value that is not a string and a \<^verbatim>\<open>score\<close> of
  \<^verbatim>\<open>None\<close> both raise \<^verbatim>\<open>TypeError\<close>.
\<close>

theorem partial_items_on_record_failure:
  "(initialize w c = Inr c' \<longrightarrow> (\<exists>resp. search w c query top_k = Inr (resp, c')))
   \<and> (initialize w c = Inr c'
      \<and> cognee_search w INSIGHTS query = Inr rs
      \<and> n < length (py_slice_to rs top_k)
      \<and> length its = n
      \<and> (\<forall>j<n. process_result (py_str w) j (py_slice_to rs top_k ! j) = Inr (its ! j))
      \<and> process_result (py_str w) n (py_slice_to rs top_k ! n) = Inl e
    \<longrightarrow> search w c query top_k = Inr (\<lparr>items = its, graph_context = None\<rparr>, c'))
   \<and> process_result str i (PDict [(''text'', PInt 5)]) = Inl TypeError
   \<and> process_result str i (PDict [(''text'', PStr s), (''score'', PNone)]) = Inl TypeError"
proof (intro conjI impI)
  assume "initialize w c = Inr c'"
  then show "\<exists>resp. search w c query top_k = Inr (resp, c')"
    by (simp add: search_def)
next
  assume a: "initialize w c = Inr c'
      \<and> cognee_search w INSIGHTS query = Inr rs
      \<and> n < length (py_slice_to rs top_k)
      \<and> length its = n
      \<and> (\<forall>j<n. process_result (py_str w) j (py_slice_to rs top_k ! j) = Inr (its ! j))
      \<and> process_result (py_str w) n (py_slice_to rs top_k ! n) = Inl e"
  let ?sl = "py_slice_to rs top_k"
  from a have ne: "rs \<noteq> []" by (auto simp: py_slice_to_Nil)
  have "process_results (py_str w) 0 ?sl [] = ([] @ its, Some e)"
    using a by (intro process_results_fail [where n = n]) auto
  with a ne show "search w c query top_k = Inr (\<lparr>items = its, graph_context = None\<rparr>, c')"
    by (simp add: search_def search_state_def search_return_def)
next
  show "process_result str i (PDict [(''text'', PInt 5)]) = Inl TypeError"
    by (simp add: process_result_def make_item_def py_get_def)
next
  show "process_result str i (PDict [(''text'', PStr s), (''score'', PNone)]) = Inl TypeError"
    by (simp add: process_result_def make_item_def py_get_def clamp_score_def py_max_def
          float_gt_val_def)
qed

theorem partial_items_on_record_failure_witness:
  "initialize (stub_world (Inr [PStr ''a'', PDict [(''text'', PInt 5)], PStr ''b'']) (Inr []))
       fresh_client = Inr (fresh_client\<lparr>initialized := True\<rparr>)
   \<and> cognee_search (stub_world (Inr [PStr ''a'', PDict [(''text'', PInt 5)], PStr ''b'']) (Inr []))
        INSIGHTS ''q'' = Inr [PStr ''a'', PDict [(''text'', PInt 5)], PStr ''b'']
   \<and> py_slice_to [PStr ''a'', PDict [(''text'', PInt 5)], PStr ''b''] 5
        = [PStr ''a'', PDict [(''text'', PInt 5)], PStr ''b'']
   \<and> process_result show_stub 0 (PStr ''a'')
        = Inr \<lparr>cognee_id = ''result_0'', snippet = PStr ''<value>'', score = PFloat (Finite 1),
               metadata = PDict []\<rparr>
   \<and> process_result show_stub 1 (PDict [(''text'', PInt 5)]) = Inl TypeError
   \<and> search (stub_world (Inr [PStr ''a'', PDict [(''text'', PInt 5)], PStr ''b'']) (Inr []))
        fresh_client ''q'' 5
     = Inr (\<lparr>items = [\<lparr>cognee_id = ''result_0'', snippet = PStr ''<value>'',
                         score = PFloat (Finite 1), metadata = PDict []\<rparr>],
             graph_context = None\<rparr>, fresh_client\<lparr>initialized := True\<rparr>)"
proof -
  let ?rs = "[PStr ''a'', PDict [(''text'', PInt 5)], PStr ''b'']"
  let ?w = "stub_world (Inr ?rs) (Inr [])"
  let ?it = "\<lparr>cognee_id = ''result_0'', snippet = PStr ''<value>'', score = PFloat (Finite 1),
               metadata = PDict []\<rparr>"
  have i: "initialize ?w fresh_client = Inr (fresh_client\<lparr>initialized := True\<rparr>)"
    by (simp add: initialize_def configure_llm_def stub_world_def fresh_client_def)
  have p: "cognee_search ?w INSIGHTS ''q'' = Inr ?rs"
    by (simp add: stub_world_def)
  have sl: "py_slice_to ?rs 5 = ?rs"
    by (simp add: py_slice_to_def)
  have s: "py_str ?w = show_stub"
    by (simp add: stub_world_def)
  have r0: "process_result show_stub 0 (PStr ''a'') = Inr ?it"
    by (simp add: eval_defs)
  have r1: "process_result show_stub 1 (PDict [(''text'', PInt 5)]) = Inl TypeError"
    by (simp add: eval_defs)
  note t = partial_items_on_record_failure
         [of ?w fresh_client "fresh_client\<lparr>initialized := True\<rparr>" "''q''" 5 ?rs 1 "[?it]"
             TypeError, THEN conjunct2, THEN conjunct1, THEN mp]
  have "search ?w fresh_client ''q'' 5
          = Inr (\<lparr>items = [?it], graph_context = None\<rparr>, fresh_client\<lparr>initialized := True\<rparr>)"
    using i p sl s r0 r1 by (intro t) simp
  with i p sl r0 r1 show ?thesis by simp
qed

end
